theory Spec2Isabelle
  imports Complex_Main "HOL-Library.While_Combinator"
begin

section \<open>Configuration bootstrap of the block storage ingester\<close>

text \<open>
  A shallow embedding of \<^verbatim>\<open>cmd/blockstoreingester/main.go\<close>: the scan of the
  command line for the two bootstrap options (\<^verbatim>\<open>parseConfigFileParameter\<close>), the
  loader (\<^verbatim>\<open>LoadConfig\<close>), the environment expander (\<^verbatim>\<open>expandEnv\<close>) and the
  sequencing in \<^verbatim>\<open>main\<close>.

  The file calls into Go's standard library (\<^verbatim>\<open>flag\<close>, \<^verbatim>\<open>os\<close>, \<^verbatim>\<open>strings\<close>,
  \<^verbatim>\<open>strconv\<close>) and into three packages (\<^verbatim>\<open>pkg/errors\<close>, the Prometheus client,
  \<^verbatim>\<open>yaml.v2\<close>). The library functions whose behaviour decides a property are
  embedded here after the library's own code, and each such definition says which
  function it follows; the digest, the YAML decoder and the registration of the
  configuration's flags are parameters.
\<close>

subsection \<open>The constants and the bootstrap flag set\<close>

definition configFileOption :: string where
  "configFileOption = ''config.file''"

definition configExpandENV :: string where
  "configExpandENV = ''config.expand-env''"

text \<open>
  The two variables that \<^verbatim>\<open>fs.StringVar(&configFile, ...)\<close> and
  \<^verbatim>\<open>fs.BoolVar(&expandEnv, ...)\<close> bind; they are the named results of
  \<^verbatim>\<open>parseConfigFileParameter\<close>.
\<close>

record flagVars =
  configFile :: string
  expandEnvFlag :: bool

datatype flagKind = StringFlag | BoolFlag

text \<open>The table \<^verbatim>\<open>fs.formal\<close> after the two registrations.\<close>

definition formal :: "string \<Rightarrow> flagKind option" where
  "formal name =
     (if name = configFileOption then Some StringFlag
      else if name = configExpandENV then Some BoolFlag
      else None)"

datatype flagError =
    ErrHelp
  | BadFlagSyntax string
  | NotDefined string
  | InvalidBooleanValue string string
  | NeedsArgument string

text \<open>\<^verbatim>\<open>strconv.ParseBool\<close>: the twelve accepted spellings, an error otherwise.\<close>

definition ParseBool :: "string \<Rightarrow> bool option" where
  "ParseBool str =
     (if str \<in> set [''1'', ''t'', ''T'', ''TRUE'', ''true'', ''True''] then Some True
      else if str \<in> set [''0'', ''f'', ''F'', ''FALSE'', ''false'', ''False''] then Some False
      else None)"

text \<open>
  The first part of \<^verbatim>\<open>FlagSet.parseOne\<close>, which reads one argument as text:
  an argument shorter than two bytes or not starting with a minus is no flag; the
  argument \<^verbatim>\<open>--\<close> ends the flags; after one or two minuses an empty name, or a
  name starting with a minus or an equals sign, is bad syntax; otherwise the name runs
  up to the first equals sign after its first byte, and the value is what follows.
\<close>

datatype argShape =
    NonFlag
  | Terminator
  | BadSyntax
  | FlagArg string bool string

definition splitEquals :: "string \<Rightarrow> string \<times> bool \<times> string" where
  "splitEquals name =
     (if CHR ''='' \<in> set (tl name)
      then (hd name # takeWhile (\<lambda>c. c \<noteq> CHR ''='') (tl name), True,
            tl (dropWhile (\<lambda>c. c \<noteq> CHR ''='') (tl name)))
      else (name, False, ''''))"

definition argShapeOf :: "string \<Rightarrow> argShape" where
  "argShapeOf s =
     (if length s < 2 \<or> s ! 0 \<noteq> CHR ''-'' then NonFlag
      else if s ! 1 = CHR ''-'' \<and> length s = 2 then Terminator
      else
        let numMinuses = (if s ! 1 = CHR ''-'' then 2 else 1 :: nat);
            name = drop numMinuses s
        in if length name = 0 \<or> name ! 0 = CHR ''-'' \<or> name ! 0 = CHR ''='' then BadSyntax
           else case splitEquals name of (name', hasValue, value) \<Rightarrow> FlagArg name' hasValue value)"

text \<open>
  \<^verbatim>\<open>FlagSet.parseOne\<close> on the two variables and the remaining arguments. The
  result is \<^verbatim>\<open>(seen, err)\<close>, the variables and the arguments left. A Boolean
  flag takes its value only from \<^verbatim>\<open>-name=value\<close>; \<^verbatim>\<open>boolValue.Set\<close> stores
  the result of \<^verbatim>\<open>ParseBool\<close> (false when it fails) before it returns the
  error. A string flag takes the next argument when no value is attached.
\<close>

definition parseOne ::
  "flagVars \<Rightarrow> string list \<Rightarrow> (bool \<times> flagError option) \<times> flagVars \<times> string list" where
  "parseOne fv args =
     (case args of
        [] \<Rightarrow> ((False, None), fv, args)
      | s # rest \<Rightarrow>
          (case argShapeOf s of
             NonFlag \<Rightarrow> ((False, None), fv, args)
           | Terminator \<Rightarrow> ((False, None), fv, rest)
           | BadSyntax \<Rightarrow> ((False, Some (BadFlagSyntax s)), fv, args)
           | FlagArg name hasValue value \<Rightarrow>
               (case formal name of
                  None \<Rightarrow>
                    if name = ''help'' \<or> name = ''h'' then ((False, Some ErrHelp), fv, rest)
                    else ((False, Some (NotDefined name)), fv, rest)
                | Some BoolFlag \<Rightarrow>
                    if hasValue then
                      (case ParseBool value of
                         None \<Rightarrow>
                           ((False, Some (InvalidBooleanValue value name)),
                            fv\<lparr>expandEnvFlag := False\<rparr>, rest)
                       | Some b \<Rightarrow> ((True, None), fv\<lparr>expandEnvFlag := b\<rparr>, rest))
                    else ((True, None), fv\<lparr>expandEnvFlag := True\<rparr>, rest)
                | Some StringFlag \<Rightarrow>
                    if hasValue then ((True, None), fv\<lparr>configFile := value\<rparr>, rest)
                    else
                      (case rest of
                         [] \<Rightarrow> ((False, Some (NeedsArgument name)), fv, rest)
                       | v # rest' \<Rightarrow> ((True, None), fv\<lparr>configFile := v\<rparr>, rest')))))"

lemma parseOne_seen_shrinks:
  assumes "parseOne fv args = ((True, err), fv', args')"
  shows "length args' < length args"
  using assms
  by (auto simp: parseOne_def split: list.splits argShape.splits option.splits
      flagKind.splits if_splits)

text \<open>
  \<^verbatim>\<open>FlagSet.Parse\<close> under \<^verbatim>\<open>ContinueOnError\<close>: it calls \<^verbatim>\<open>parseOne\<close>
  while a flag was seen, and returns the first error, or nil when the flags end.
\<close>

function Parse :: "flagVars \<Rightarrow> string list \<Rightarrow> flagError option \<times> flagVars \<times> string list" where
  "Parse fv args =
     (case parseOne fv args of
        ((seen, err), fv', args') \<Rightarrow>
          if seen then Parse fv' args' else (err, fv', args'))"
  by pat_completeness auto
termination
proof (relation "measure (\<lambda>(fv, args). length args)")
  show "wf (measure (\<lambda>(fv, args). length args))"
    by simp
next
  fix fv :: flagVars and args :: "string list" and x seen err y fv' args'
  assume "(x, y) = parseOne fv args" "(seen, err) = x" "(fv', args') = y" "seen"
  then have "parseOne fv args = ((True, err), fv', args')"
    by simp
  then have "length args' < length args"
    by (rule parseOne_seen_shrinks)
  then show "((fv', args'), fv, args) \<in> measure (\<lambda>(fv, args). length args)"
    by simp
qed

declare Parse.simps [simp del]

text \<open>
  The loop of \<^verbatim>\<open>parseConfigFileParameter\<close>: while arguments are left, parse them
  (the error is discarded) and drop the first one.
\<close>

function scanArgs :: "flagVars \<Rightarrow> string list \<Rightarrow> flagVars" where
  "scanArgs fv args =
     (if length args > 0 then scanArgs (fst (snd (Parse fv args))) (drop 1 args) else fv)"
  by pat_completeness auto
termination
  by (relation "measure (\<lambda>(fv, args). length args)") auto

declare scanArgs.simps [simp del]

definition parseConfigFileParameter :: "string list \<Rightarrow> string \<times> bool" where
  "parseConfigFileParameter args =
     (let fv = scanArgs \<lparr>configFile = '''', expandEnvFlag = False\<rparr> args
      in (configFile fv, expandEnvFlag fv))"

subsection \<open>The environment expander\<close>

text \<open>
  \<^verbatim>\<open>os.Expand\<close> and its helpers, after the standard library. A string is its
  list of bytes, and \<^verbatim>\<open>s[i:j]\<close> is \<open>take (j - i) (drop i s)\<close>.
\<close>

definition isShellSpecialVar :: "char \<Rightarrow> bool" where
  "isShellSpecialVar c = (c \<in> set ''*#$@!?-0123456789'')"

definition isAlphaNum :: "char \<Rightarrow> bool" where
  "isAlphaNum c =
     (let n = (of_char c :: nat)
      in c = CHR ''_''
         \<or> (of_char CHR ''0'' \<le> n \<and> n \<le> of_char CHR ''9'')
         \<or> (of_char CHR ''a'' \<le> n \<and> n \<le> of_char CHR ''z'')
         \<or> (of_char CHR ''A'' \<le> n \<and> n \<le> of_char CHR ''Z''))"

text \<open>The scan for the closing brace: \<^verbatim>\<open>for i := 1; i < len(s); i++\<close>.\<close>

function scanBrace :: "string \<Rightarrow> nat \<Rightarrow> nat option" where
  "scanBrace s i =
     (if i < length s then (if s ! i = CHR ''}'' then Some i else scanBrace s (i + 1))
      else None)"
  by pat_completeness auto
termination
  by (relation "measure (\<lambda>(s, i). length s - i)") auto

declare scanBrace.simps [simp del]

text \<open>The scan of a bare name: \<^verbatim>\<open>for i = 0; i < len(s) && isAlphaNum(s[i]); i++\<close>.\<close>

function scanAlphaNum :: "string \<Rightarrow> nat \<Rightarrow> nat" where
  "scanAlphaNum s i =
     (if i < length s \<and> isAlphaNum (s ! i) then scanAlphaNum s (i + 1) else i)"
  by pat_completeness auto
termination
  by (relation "measure (\<lambda>(s, i). length s - i)") auto

declare scanAlphaNum.simps [simp del]

text \<open>
  \<^verbatim>\<open>getShellName\<close>: the name that begins \<open>s\<close> and the number of bytes it takes.
  The caller passes a non-empty string.
\<close>

definition getShellName :: "string \<Rightarrow> string \<times> nat" where
  "getShellName s =
     (if s ! 0 = CHR ''{'' then
        (if length s > 2 \<and> isShellSpecialVar (s ! 1) \<and> s ! 2 = CHR ''}''
         then (take 1 (drop 1 s), 3)
         else
           (case scanBrace s 1 of
              Some i \<Rightarrow> if i = 1 then ('''', 2) else (take (i - 1) (drop 1 s), i + 1)
            | None \<Rightarrow> ('''', 1)))
      else if isShellSpecialVar (s ! 0) then (take 1 s, 1)
      else let i = scanAlphaNum s 0 in (take i s, i))"

text \<open>
  The loop of \<^verbatim>\<open>os.Expand\<close>. \<open>buf\<close> is \<open>None\<close> while the Go buffer is nil;
  \<open>i\<close> is the start of the text not yet copied and \<open>j\<close> the loop variable.
\<close>

function Expand_loop ::
  "(string \<Rightarrow> string) \<Rightarrow> string \<Rightarrow> string option \<Rightarrow> nat \<Rightarrow> nat \<Rightarrow> string" where
  "Expand_loop mapping s buf i j =
     (if j < length s then
        (if s ! j = CHR ''$'' \<and> j + 1 < length s then
           (let buf1 = (case buf of None \<Rightarrow> '''' | Some b \<Rightarrow> b) @ take (j - i) (drop i s);
                (name, w) = getShellName (drop (j + 1) s);
                buf2 = (if name = '''' \<and> w > 0 then buf1
                        else if name = '''' then buf1 @ [s ! j]
                        else buf1 @ mapping name);
                j' = j + w
            in Expand_loop mapping s (Some buf2) (j' + 1) (j' + 1))
         else Expand_loop mapping s buf i (j + 1))
      else (case buf of None \<Rightarrow> s | Some b \<Rightarrow> b @ drop i s))"
  by pat_completeness auto
termination
  by (relation "measure (\<lambda>(mapping, s, buf, i, j). length s - j)") auto

declare Expand_loop.simps [simp del]

definition Expand :: "string \<Rightarrow> (string \<Rightarrow> string) \<Rightarrow> string" where
  "Expand s mapping = Expand_loop mapping s None 0 0"

text \<open>
  The process environment, and \<^verbatim>\<open>os.Getenv\<close>: the empty string for the empty
  key and for a variable that is not set.
\<close>

type_synonym environment = "string \<rightharpoonup> string"

definition Getenv :: "environment \<Rightarrow> string \<Rightarrow> string" where
  "Getenv env key =
     (if length key = 0 then '''' else case env key of None \<Rightarrow> '''' | Some v \<Rightarrow> v)"

text \<open>
  \<^verbatim>\<open>strings.SplitN(s, sep, 2)\<close> for a separator of one byte: the text before the
  first separator and the text after it, or the whole text alone.
\<close>

definition SplitN2 :: "string \<Rightarrow> char \<Rightarrow> string list" where
  "SplitN2 s sep =
     (if sep \<in> set s
      then [takeWhile (\<lambda>c. c \<noteq> sep) s, tl (dropWhile (\<lambda>c. c \<noteq> sep) s)]
      else [s])"

text \<open>The function literal that \<^verbatim>\<open>expandEnv\<close> passes to \<^verbatim>\<open>os.Expand\<close>.\<close>

definition expandMapping :: "environment \<Rightarrow> string \<Rightarrow> string" where
  "expandMapping env key =
     (let keyAndDefault = SplitN2 key CHR '':'';
          key' = keyAndDefault ! 0;
          v = Getenv env key'
      in if v = '''' \<and> length keyAndDefault = 2 then keyAndDefault ! 1 else v)"

definition expandEnv :: "environment \<Rightarrow> string \<Rightarrow> string" where
  "expandEnv env config = Expand config (expandMapping env)"

subsection \<open>Errors, files, the gauge and the process state\<close>

text \<open>
  An error value is a cause with its text, or \<^verbatim>\<open>errors.Wrap(err, message)\<close>, whose
  text is the message, a colon and the text of the wrapped error.
\<close>

datatype error = Cause string | Wrap error string

fun Error :: "error \<Rightarrow> string" where
  "Error (Cause text) = text"
| "Error (Wrap err message) = message @ '': '' @ Error err"

text \<open>
  What the code reads and writes outside its own variables: the files (the result of
  a whole-file read per path), the environment, the label values of the gauge vector
  \<^verbatim>\<open>configHash\<close> with their values, the standard error stream, the names registered
  on \<^verbatim>\<open>flag.CommandLine\<close>, and the package variable \<^verbatim>\<open>testMode\<close>.
\<close>

record world =
  files :: "string \<Rightarrow> error + string"
  environ :: environment
  configHash :: "string \<rightharpoonup> real"
  stderr :: string
  CommandLine :: "string list"
  testMode :: bool

text \<open>\<^verbatim>\<open>os.ReadFile\<close>: opening the empty path fails; any other path is looked up.\<close>

definition ReadFile :: "world \<Rightarrow> string \<Rightarrow> error + string" where
  "ReadFile w filename =
     (if filename = '''' then Inl (Cause ''open : no such file or directory'')
      else files w filename)"

text \<open>
  \<^verbatim>\<open>GaugeVec.Reset\<close> deletes every label value; \<^verbatim>\<open>WithLabelValues(lv).Set(v)\<close>
  creates the gauge of \<open>lv\<close> when it is missing and sets it.
\<close>

definition Reset :: "(string \<rightharpoonup> real) \<Rightarrow> (string \<rightharpoonup> real)" where
  "Reset g = Map.empty"

definition WithLabelValues_Set :: "(string \<rightharpoonup> real) \<Rightarrow> string \<Rightarrow> real \<Rightarrow> (string \<rightharpoonup> real)" where
  "WithLabelValues_Set g lv v = g(lv \<mapsto> v)"

text \<open>\<^verbatim>\<open>fmt.Sprintf("%x", hash)\<close> on a byte array: two lower-case hex digits per byte.\<close>

definition hexDigit :: "nat \<Rightarrow> char" where
  "hexDigit n = ''0123456789abcdef'' ! n"

definition Sprintf_x :: "string \<Rightarrow> string" where
  "Sprintf_x hash =
     concat (map (\<lambda>c. [hexDigit ((of_char c :: nat) div 16), hexDigit ((of_char c :: nat) mod 16)]) hash)"

subsection \<open>The loader\<close>

text \<open>
  \<^verbatim>\<open>LoadConfig\<close>. The digest \<^verbatim>\<open>sha256.Sum256\<close> and the decoder
  \<^verbatim>\<open>yaml.UnmarshalStrict\<close> are parameters; the decoder returns its error and the
  configuration as it left it.
\<close>

definition LoadConfig ::
  "(string \<Rightarrow> string) \<Rightarrow> (string \<Rightarrow> 'cfg \<Rightarrow> error option \<times> 'cfg) \<Rightarrow>
   string \<Rightarrow> bool \<Rightarrow> 'cfg \<Rightarrow> world \<Rightarrow> error option \<times> 'cfg \<times> world" where
  "LoadConfig Sum256 UnmarshalStrict filename expandENV cfg w =
     (case ReadFile w filename of
        Inl err \<Rightarrow> (Some (Wrap err ''Error reading config file''), cfg, w)
      | Inr buf \<Rightarrow>
          (let hash = Sum256 buf;
               w1 = w\<lparr>configHash := Reset (configHash w)\<rparr>;
               w2 = w1\<lparr>configHash := WithLabelValues_Set (configHash w1) (Sprintf_x hash) 1\<rparr>;
               buf' = (if expandENV then expandEnv (environ w2) buf else buf)
           in case UnmarshalStrict buf' cfg of
                (Some err, cfg') \<Rightarrow> (Some (Wrap err ''Error parsing config file''), cfg', w2)
              | (None, cfg') \<Rightarrow> (None, cfg', w2)))"

subsection \<open>Strict deserialization\<close>

text \<open>
  Modelled from the spec: \<^verbatim>\<open>yaml.UnmarshalStrict\<close> and the schema of
  \<^verbatim>\<open>cortex.Config\<close> are not in the source tree. The specification says of them that
  the file is a YAML document matching the target schema, and that strict mode makes
  any field of the document that does not correspond to a known field of the schema,
  at the top level or nested, a load error. A document is a tree of scalars, mappings
  and sequences; a schema names the fields of each structure; the parser of the text
  and the decoder that fills the configuration stay parameters.
\<close>

datatype yaml = Scalar string | Mapping "(string \<times> yaml) list" | Sequence "yaml list"

datatype schema = Leaf | Struct "(string \<times> schema) list" | ListOf schema

fun unknownFields :: "schema \<Rightarrow> yaml \<Rightarrow> string list" where
  "unknownFields (Struct flds) (Mapping kvs) =
     concat (map (\<lambda>(k, v). case map_of flds k of
                               None \<Rightarrow> [k]
                             | Some sch \<Rightarrow> unknownFields sch v) kvs)"
| "unknownFields (ListOf sch) (Sequence items) = concat (map (unknownFields sch) items)"
| "unknownFields sch doc = []"

definition UnmarshalStrict_spec ::
  "(string \<Rightarrow> error + yaml) \<Rightarrow> schema \<Rightarrow> (yaml \<Rightarrow> 'cfg \<Rightarrow> error option \<times> 'cfg) \<Rightarrow>
   string \<Rightarrow> 'cfg \<Rightarrow> error option \<times> 'cfg" where
  "UnmarshalStrict_spec parseYAML sch decode buf cfg =
     (case parseYAML buf of
        Inl err \<Rightarrow> (Some err, cfg)
      | Inr doc \<Rightarrow>
          (case decode doc cfg of
             (err, cfg') \<Rightarrow>
               (case unknownFields sch doc of
                  [] \<Rightarrow> (err, cfg')
                | k # ks \<Rightarrow> (Some (Cause (''field '' @ k @ '' not found in type'')), cfg'))))"

text \<open>
  The specification's words for the documents that strict mode rejects: some field of
  the document, at the top level or below known fields, is not a field of the schema.
\<close>

inductive hasUnknownField :: "schema \<Rightarrow> yaml \<Rightarrow> bool" where
  top: "(k, v) \<in> set kvs \<Longrightarrow> map_of flds k = None \<Longrightarrow>
        hasUnknownField (Struct flds) (Mapping kvs)"
| nested: "(k, v) \<in> set kvs \<Longrightarrow> map_of flds k = Some sch \<Longrightarrow> hasUnknownField sch v \<Longrightarrow>
        hasUnknownField (Struct flds) (Mapping kvs)"
| item: "v \<in> set items \<Longrightarrow> hasUnknownField sch v \<Longrightarrow>
        hasUnknownField (ListOf sch) (Sequence items)"

code_pred hasUnknownField .

subsection \<open>The orchestrator\<close>

text \<open>
  \<^verbatim>\<open>FlagSet.Var\<close> on the names registered so far: it panics (\<open>None\<close>) on a name
  that begins with a minus, contains an equals sign or is registered already.
  \<^verbatim>\<open>flagext.IgnoredFlag\<close> and \<^verbatim>\<open>FlagSet.Bool\<close> register through it.
\<close>

definition Var :: "string list \<Rightarrow> string \<Rightarrow> string list option" where
  "Var formalNames name =
     (if take 1 name = ''-'' then None
      else if CHR ''='' \<in> set name then None
      else if name \<in> set formalNames then None
      else Some (formalNames @ [name]))"

datatype outcome = Returned | Exited int | Panicked

text \<open>
  The end of \<^verbatim>\<open>main\<close>: the two bootstrap options are registered on
  \<^verbatim>\<open>flag.CommandLine\<close> to be ignored by the later parse.
\<close>

definition registerIgnored :: "world \<Rightarrow> outcome \<times> world" where
  "registerIgnored w =
     (case Var (CommandLine w) configFileOption of
        None \<Rightarrow> (Panicked, w)
      | Some names1 \<Rightarrow>
          (case Var names1 configExpandENV of
             None \<Rightarrow> (Panicked, w\<lparr>CommandLine := names1\<rparr>)
           | Some names2 \<Rightarrow> (Returned, w\<lparr>CommandLine := names2\<rparr>)))"

text \<open>
  \<^verbatim>\<open>main\<close> on the arguments \<^verbatim>\<open>os.Args[1:]\<close>. \<open>cfg0\<close> is the zero value of the
  configuration; \<^verbatim>\<open>flagext.RegisterFlags(&cfg)\<close> is a parameter that gives the
  configuration with its defaults and the names on \<^verbatim>\<open>flag.CommandLine\<close>, or
  panics (\<open>None\<close>).
\<close>

definition main ::
  "(string \<Rightarrow> string) \<Rightarrow> (string \<Rightarrow> 'cfg \<Rightarrow> error option \<times> 'cfg) \<Rightarrow>
   ('cfg \<Rightarrow> string list \<Rightarrow> ('cfg \<times> string list) option) \<Rightarrow> 'cfg \<Rightarrow>
   string list \<Rightarrow> world \<Rightarrow> outcome \<times> world" where
  "main Sum256 UnmarshalStrict RegisterFlags cfg0 args w =
     (case parseConfigFileParameter args of
        (configFile', expandENV) \<Rightarrow>
          (case RegisterFlags cfg0 (CommandLine w) of
             None \<Rightarrow> (Panicked, w)
           | Some (cfg, names) \<Rightarrow>
               (let w1 = w\<lparr>CommandLine := names\<rparr>
                in if configFile' \<noteq> '''' then
                     (case LoadConfig Sum256 UnmarshalStrict configFile' expandENV cfg w1 of
                        (Some err, cfg', w2) \<Rightarrow>
                          (let w3 = w2\<lparr>stderr := stderr w2 @ ''error loading config from ''
                                      @ configFile' @ '': '' @ Error err @ [CHR 0x0A]\<rparr>
                           in if testMode w3 then (Returned, w3) else (Exited 1, w3))
                      | (None, cfg', w2) \<Rightarrow> registerIgnored w2)
                   else registerIgnored w1)))"

subsection \<open>Notions used to state the properties\<close>

text \<open>
  The loop of \<^verbatim>\<open>parseConfigFileParameter\<close> once more, as a while loop on the pair
  of the variables and the arguments left: it has a result only if the loop ends.
\<close>

definition scanArgs_while :: "flagVars \<Rightarrow> string list \<Rightarrow> (flagVars \<times> string list) option" where
  "scanArgs_while fv args =
     while_option (\<lambda>(fv, args). length args > 0)
       (\<lambda>(fv, args). (fst (snd (Parse fv args)), drop 1 args)) (fv, args)"





text \<open>
  The expansion as a recursion on the text that is left: a dollar sign that is not
  the last byte is followed by what \<^verbatim>\<open>getShellName\<close> reads, any other byte is
  copied. It is proved equal to the loop and used to reason about it.
\<close>

function expand_rec :: "(string \<Rightarrow> string) \<Rightarrow> string \<Rightarrow> string" where
  "expand_rec m [] = []"
| "expand_rec m (c # s) =
     (if c = CHR ''$'' \<and> s \<noteq> [] then
        (case getShellName s of
           (name, w) \<Rightarrow>
             (if name = '''' \<and> w > 0 then '''' else if name = '''' then [c] else m name)
             @ expand_rec m (drop w s))
      else c # expand_rec m s)"
  by pat_completeness auto
termination
  by (relation "measure (\<lambda>(m, s). length s)") auto

text \<open>
  The specification's rule for one placeholder, in its words: the value of the
  variable when it is set and not empty; otherwise the default when one was given,
  and the empty string when none was.
\<close>

definition resolve :: "environment \<Rightarrow> string \<Rightarrow> string option \<Rightarrow> string" where
  "resolve env name dflt =
     (case env name of
        Some v \<Rightarrow> if v \<noteq> '''' then v else (case dflt of Some d \<Rightarrow> d | None \<Rightarrow> '''')
      | None \<Rightarrow> (case dflt of Some d \<Rightarrow> d | None \<Rightarrow> ''''))"

text \<open>
  A bare name is a shell identifier: letters, digits and underscores, not starting
  with a digit. It ends where the text ends or a byte follows that cannot continue it.
\<close>

definition bareName :: "string \<Rightarrow> bool" where
  "bareName name = (name \<noteq> '''' \<and> list_all isAlphaNum name \<and> \<not> isShellSpecialVar (hd name))"

definition endsName :: "string \<Rightarrow> bool" where
  "endsName rest = (case rest of [] \<Rightarrow> True | c # cs \<Rightarrow> \<not> isAlphaNum c)"

subsection \<open>Example inputs\<close>

text \<open>
  Concrete inputs for the instances below: a file system with one configuration file,
  a process state with a label left by an earlier load, stand-ins for the digest, the
  decoder, the parser and the registration of the configuration's flags.
\<close>

definition exampleFiles :: "string \<Rightarrow> error + string" where
  "exampleFiles path =
     (if path = ''cfg.yaml'' then Inr ''greeting: ${NAME:world}''
      else Inl (Cause (''open '' @ path @ '': no such file or directory'')))"

definition exampleWorld :: world where
  "exampleWorld =
     \<lparr>files = exampleFiles, environ = Map.empty, configHash = [''0f'' \<mapsto> 1], stderr = '''',
      CommandLine = [], testMode = False\<rparr>"

definition exampleDigest :: "string \<Rightarrow> string" where
  "exampleDigest buf = [char_of (length buf)]"

definition exampleDecoder :: "string \<Rightarrow> string \<Rightarrow> error option \<times> string" where
  "exampleDecoder buf cfg = (None, buf)"

definition failingDecoder :: "string \<Rightarrow> string \<Rightarrow> error option \<times> string" where
  "failingDecoder buf cfg = (Some (Cause ''yaml: unmarshal errors''), cfg)"

definition exampleRegisterFlags :: "string \<Rightarrow> string list \<Rightarrow> (string \<times> string list) option" where
  "exampleRegisterFlags cfg names = Some (cfg, names @ [''target'', ''server.http-listen-port''])"

definition exampleParse :: "string \<Rightarrow> error + yaml" where
  "exampleParse buf =
     (if CHR '':'' \<in> set buf
      then Inr (Mapping [(takeWhile (\<lambda>c. c \<noteq> CHR '':'') buf,
                         Scalar (drop 2 (dropWhile (\<lambda>c. c \<noteq> CHR '':'') buf)))])
      else Inl (Cause ''yaml: could not find expected key''))"

section \<open>Properties of the locator\<close>

lemma scanArgs_Nil: "scanArgs fv [] = fv"
  by (simp add: scanArgs.simps)

lemma scanArgs_Cons: "scanArgs fv (a # as) = scanArgs (fst (snd (Parse fv (a # as)))) as"
  by (simp add: scanArgs.simps [of fv "a # as"])

lemma scanArgs_while_eq: "scanArgs_while fv args = Some (scanArgs fv args, [])"
proof (induction args arbitrary: fv)
  case Nil
  show ?case
    by (simp add: scanArgs_while_def while_option_unfold scanArgs_Nil)
next
  case (Cons a as)
  have "scanArgs_while fv (a # as) = scanArgs_while (fst (snd (Parse fv (a # as)))) as"
    unfolding scanArgs_while_def
    by (subst while_option_unfold) simp
  then show ?case
    by (simp add: Cons.IH scanArgs_Cons)
qed

text \<open>
  C9: the shift-and-retry loop ends on every argument list, with no argument left
  (each pass drops one argument, and each parse inside it ends because a flag that
  was seen consumes an argument); on the empty list the locator returns the empty
  path and false.
\<close>

theorem parseConfigFileParameter_terminates:
  "(\<exists>fv. scanArgs_while \<lparr>configFile = '''', expandEnvFlag = False\<rparr> args = Some (fv, [])
      \<and> parseConfigFileParameter args = (configFile fv, expandEnvFlag fv))
   \<and> parseConfigFileParameter [] = ('''', False)"
  by (simp add: scanArgs_while_eq parseConfigFileParameter_def scanArgs_Nil Let_def)

















section \<open>Properties of the expander\<close>

subsection \<open>The loop and the recursion agree\<close>

lemma Expand_loop_done:
  "\<not> j < length s \<Longrightarrow>
   Expand_loop m s buf i j = (case buf of None \<Rightarrow> s | Some b \<Rightarrow> b @ drop i s)"
  by (simp add: Expand_loop.simps [of m s buf i j])

lemma Expand_loop_plain:
  "j < length s \<Longrightarrow> \<not> (s ! j = CHR ''$'' \<and> j + 1 < length s) \<Longrightarrow>
   Expand_loop m s buf i j = Expand_loop m s buf i (j + 1)"
  by (subst Expand_loop.simps) auto

lemma Expand_loop_dollar:
  "j < length s \<Longrightarrow> s ! j = CHR ''$'' \<Longrightarrow> j + 1 < length s \<Longrightarrow>
   getShellName (drop (j + 1) s) = (name, w) \<Longrightarrow>
   Expand_loop m s buf i j =
     Expand_loop m s
       (Some ((case buf of None \<Rightarrow> '''' | Some b \<Rightarrow> b) @ take (j - i) (drop i s)
              @ (if name = '''' \<and> w > 0 then '''' else if name = '''' then [s ! j] else m name)))
       (j + w + 1) (j + w + 1)"
  by (subst Expand_loop.simps) (simp add: Let_def)

lemma Expand_loop_rec:
  "i \<le> j \<Longrightarrow> (buf = None \<longrightarrow> i = 0) \<Longrightarrow>
   Expand_loop m s buf i j
     = (case buf of None \<Rightarrow> '''' | Some b \<Rightarrow> b) @ take (j - i) (drop i s) @ expand_rec m (drop j s)"
proof (induction "length s - j" arbitrary: buf i j rule: less_induct)
  case less
  show ?case
  proof (cases "j < length s")
    case False
    then have "take (j - i) (drop i s) = drop i s"
      using less.prems by simp
    with False less.prems show ?thesis
      by (auto simp: Expand_loop_done split: option.splits)
  next
    case True
    then have dj: "drop j s = s ! j # drop (j + 1) s"
      by (simp add: Cons_nth_drop_Suc)
    show ?thesis
    proof (cases "s ! j = CHR ''$'' \<and> j + 1 < length s")
      case False
      have tk: "take (Suc j - i) (drop i s) = take (j - i) (drop i s) @ [s ! j]"
      proof -
        have "j - i < length (drop i s)" using True less.prems by simp
        then have "take (Suc (j - i)) (drop i s) = take (j - i) (drop i s) @ [drop i s ! (j - i)]"
          by (rule take_Suc_conv_app_nth)
        moreover have "drop i s ! (j - i) = s ! j" using True less.prems by simp
        moreover have "Suc j - i = Suc (j - i)" using less.prems by simp
        ultimately show ?thesis by simp
      qed
      have ex: "expand_rec m (drop j s) = s ! j # expand_rec m (drop (j + 1) s)"
        using False True by (auto simp: dj)
      have "Expand_loop m s buf i j = Expand_loop m s buf i (j + 1)"
        using True False by (rule Expand_loop_plain)
      also have "\<dots> = (case buf of None \<Rightarrow> '''' | Some b \<Rightarrow> b) @ take (j + 1 - i) (drop i s)
                        @ expand_rec m (drop (j + 1) s)"
        using True less.prems by (intro less.hyps) auto
      finally show ?thesis
        by (simp add: tk ex)
    next
      case dollar: True
      obtain name w where g: "getShellName (drop (j + 1) s) = (name, w)"
        by (cases "getShellName (drop (j + 1) s)") auto
      let ?out = "if name = '''' \<and> w > 0 then '''' else if name = '''' then [s ! j] else m name"
      let ?buf1 = "(case buf of None \<Rightarrow> '''' | Some b \<Rightarrow> b) @ take (j - i) (drop i s)"
      have ex: "expand_rec m (drop j s) = ?out @ expand_rec m (drop (j + w + 1) s)"
        using dollar g by (simp add: dj add.commute add.left_commute)
      have "Expand_loop m s buf i j = Expand_loop m s (Some (?buf1 @ ?out)) (j + w + 1) (j + w + 1)"
        using True dollar g by (simp add: Expand_loop_dollar)
      also have "\<dots> = (?buf1 @ ?out) @ take 0 (drop (j + w + 1) s) @ expand_rec m (drop (j + w + 1) s)"
        using True by (subst less.hyps) auto
      finally show ?thesis
        by (simp add: ex)
    qed
  qed
qed

lemma Expand_eq_expand_rec: "Expand s m = expand_rec m s"
  by (simp add: Expand_def Expand_loop_rec)

subsection \<open>What \<^verbatim>\<open>getShellName\<close> reads\<close>

lemma scanBrace_hit:
  "CHR ''}'' \<notin> set tok \<Longrightarrow>
   scanBrace (pre @ tok @ CHR ''}'' # rest) (length pre) = Some (length pre + length tok)"
proof (induction tok arbitrary: pre)
  case Nil
  show ?case by (subst scanBrace.simps) simp
next
  case (Cons c tok)
  have "scanBrace (pre @ (c # tok) @ CHR ''}'' # rest) (length pre)
      = scanBrace ((pre @ [c]) @ tok @ CHR ''}'' # rest) (length (pre @ [c]))"
    using Cons.prems by (subst scanBrace.simps) (auto simp: nth_append)
  also have "\<dots> = Some (length (pre @ [c]) + length tok)"
    using Cons.prems by (intro Cons.IH) simp
  finally show ?case by simp
qed

lemma scanBrace_miss:
  "CHR ''}'' \<notin> set tok \<Longrightarrow> scanBrace (pre @ tok) (length pre) = None"
proof (induction tok arbitrary: pre)
  case Nil
  show ?case by (subst scanBrace.simps) simp
next
  case (Cons c tok)
  have "scanBrace (pre @ c # tok) (length pre)
      = scanBrace ((pre @ [c]) @ tok) (length (pre @ [c]))"
    using Cons.prems by (subst scanBrace.simps) (auto simp: nth_append)
  also have "\<dots> = None"
    using Cons.prems by (intro Cons.IH) simp
  finally show ?case by simp
qed

lemma scanAlphaNum_run:
  "list_all isAlphaNum name \<Longrightarrow> rest = [] \<or> \<not> isAlphaNum (hd rest) \<Longrightarrow>
   scanAlphaNum (pre @ name @ rest) (length pre) = length pre + length name"
proof (induction name arbitrary: pre)
  case Nil
  then show ?case
    by (subst scanAlphaNum.simps) (auto simp: nth_append hd_conv_nth)
next
  case (Cons c name)
  have "scanAlphaNum (pre @ (c # name) @ rest) (length pre)
      = scanAlphaNum ((pre @ [c]) @ name @ rest) (length (pre @ [c]))"
    using Cons.prems by (subst scanAlphaNum.simps) (simp add: nth_append)
  also have "\<dots> = length (pre @ [c]) + length name"
    using Cons.prems by (intro Cons.IH) simp_all
  finally show ?case by simp
qed

lemma special_not_brace: "isShellSpecialVar c \<Longrightarrow> c \<noteq> CHR ''{'' \<and> c \<noteq> CHR ''}''"
  by (auto simp: isShellSpecialVar_def)

lemma alnum_not_punct:
  "isAlphaNum c \<Longrightarrow> c \<noteq> CHR ''{'' \<and> c \<noteq> CHR ''}'' \<and> c \<noteq> CHR '':'' \<and> c \<noteq> CHR ''$''"
  by (auto simp: isAlphaNum_def)

lemma getShellName_braced:
  assumes "tok \<noteq> []" and "CHR ''}'' \<notin> set tok"
  shows "getShellName (CHR ''{'' # tok @ CHR ''}'' # rest) = (tok, length tok + 2)"
proof -
  let ?s = "CHR ''{'' # tok @ CHR ''}'' # rest"
  have sb: "scanBrace ?s 1 = Some (1 + length tok)"
    using scanBrace_hit [OF assms(2), of "[CHR ''{'']" rest] by simp
  show ?thesis
  proof (cases "length ?s > 2 \<and> isShellSpecialVar (?s ! 1) \<and> ?s ! 2 = CHR ''}''")
    case True
    then have "tok ! 0 \<noteq> CHR ''}''"
      using assms by (cases tok) auto
    from True assms have "length tok = 1"
      by (cases tok; cases "tl tok") (auto simp: nth_Cons')
    then obtain c where "tok = [c]"
      by (cases tok) auto
    with True show ?thesis
      by (simp add: getShellName_def)
  next
    case False
    then show ?thesis
      using assms sb by (auto simp: getShellName_def)
  qed
qed

lemma getShellName_empty_braces:
  "getShellName (CHR ''{'' # CHR ''}'' # rest) = ('''', 2)"
proof -
  have "scanBrace (CHR ''{'' # CHR ''}'' # rest) 1 = Some 1"
    using scanBrace_hit [of "[]" "[CHR ''{'']" rest] by simp
  then show ?thesis
    by (simp add: getShellName_def isShellSpecialVar_def)
qed

lemma getShellName_open_brace:
  assumes "CHR ''}'' \<notin> set rest"
  shows "getShellName (CHR ''{'' # rest) = ('''', 1)"
proof -
  have "scanBrace (CHR ''{'' # rest) 1 = None"
    using scanBrace_miss [OF assms, of "[CHR ''{'']"] by simp
  moreover have "\<not> (length (CHR ''{'' # rest) > 2 \<and> (CHR ''{'' # rest) ! 2 = CHR ''}'')"
    using assms by (cases rest; cases "tl rest") auto
  ultimately show ?thesis
    by (auto simp: getShellName_def)
qed

lemma getShellName_special:
  "isShellSpecialVar c \<Longrightarrow> getShellName (c # rest) = ([c], 1)"
  using special_not_brace [of c] by (simp add: getShellName_def)

lemma getShellName_bare:
  assumes "name \<noteq> []" and "list_all isAlphaNum name" and "\<not> isShellSpecialVar (hd name)"
    and "rest = [] \<or> \<not> isAlphaNum (hd rest)"
  shows "getShellName (name @ rest) = (name, length name)"
proof -
  have "scanAlphaNum (name @ rest) 0 = length name"
    using scanAlphaNum_run [OF assms(2) assms(4), of "[]"] by simp
  moreover have "(name @ rest) ! 0 = hd name"
    using assms(1) by (cases name) auto
  moreover have "hd name \<noteq> CHR ''{''"
    using assms(1,2) alnum_not_punct [of "hd name"] by (cases name) auto
  ultimately show ?thesis
    using assms(3) by (simp add: getShellName_def Let_def)
qed

lemma getShellName_none:
  assumes "c \<noteq> CHR ''{''" and "\<not> isShellSpecialVar c" and "\<not> isAlphaNum c"
  shows "getShellName (c # rest) = ('''', 0)"
proof -
  have "scanAlphaNum (c # rest) 0 = 0"
    using assms(3) by (subst scanAlphaNum.simps) simp
  then show ?thesis
    using assms by (simp add: getShellName_def)
qed

lemma scanBrace_bound: "scanBrace s i = Some k \<Longrightarrow> i \<le> k \<and> k < length s"
proof (induction s i rule: scanBrace.induct)
  case (1 s i)
  show ?case
  proof (cases "i < length s \<and> s ! i \<noteq> CHR ''}''")
    case True
    then have "scanBrace s (i + 1) = Some k"
      using "1.prems" by (subst (asm) scanBrace.simps) simp
    then have "i + 1 \<le> k \<and> k < length s"
      using True by (intro "1.IH") auto
    then show ?thesis by simp
  next
    case False
    then show ?thesis
      using "1.prems" by (subst (asm) scanBrace.simps) (auto split: if_splits)
  qed
qed

lemma scanAlphaNum_bound: "i \<le> length s \<Longrightarrow> scanAlphaNum s i \<le> length s"
proof (induction s i rule: scanAlphaNum.induct)
  case (1 s i)
  show ?case
  proof (cases "i < length s \<and> isAlphaNum (s ! i)")
    case True
    then have "scanAlphaNum s i = scanAlphaNum s (i + 1)"
      by (subst scanAlphaNum.simps) simp
    moreover have "scanAlphaNum s (i + 1) \<le> length s"
      using True by (intro "1.IH") auto
    ultimately show ?thesis by simp
  next
    case False
    then have "scanAlphaNum s i = i"
      by (subst scanAlphaNum.simps) auto
    then show ?thesis
      using "1.prems" by simp
  qed
qed

lemma getShellName_width: "s \<noteq> [] \<Longrightarrow> snd (getShellName s) \<le> length s"
  using scanAlphaNum_bound [of 0 s]
  by (auto simp: getShellName_def Let_def Suc_le_eq split: option.splits dest!: scanBrace_bound)

lemma SplitN2_length: "0 < length (SplitN2 key sep) \<and> length (SplitN2 key sep) \<le> 2"
  by (simp add: SplitN2_def)

subsection \<open>Equations of the expansion\<close>

lemma expand_rec_prefix: "CHR ''$'' \<notin> set pre \<Longrightarrow> expand_rec m (pre @ s) = pre @ expand_rec m s"
  by (induction pre) auto

lemma expand_rec_braced:
  "tok \<noteq> [] \<Longrightarrow> CHR ''}'' \<notin> set tok \<Longrightarrow>
   expand_rec m (CHR ''$'' # CHR ''{'' # tok @ CHR ''}'' # rest) = m tok @ expand_rec m rest"
  by (simp add: getShellName_braced)

lemma expand_rec_empty_braces:
  "expand_rec m (CHR ''$'' # CHR ''{'' # CHR ''}'' # rest) = expand_rec m rest"
  by (simp add: getShellName_empty_braces)

lemma expand_rec_open_brace:
  "CHR ''}'' \<notin> set rest \<Longrightarrow> expand_rec m (CHR ''$'' # CHR ''{'' # rest) = expand_rec m rest"
  by (simp add: getShellName_open_brace)

lemma expand_rec_special:
  "isShellSpecialVar c \<Longrightarrow> expand_rec m (CHR ''$'' # c # rest) = m [c] @ expand_rec m rest"
  by (simp add: getShellName_special)

lemma expand_rec_bare:
  "name \<noteq> [] \<Longrightarrow> list_all isAlphaNum name \<Longrightarrow> \<not> isShellSpecialVar (hd name) \<Longrightarrow>
   rest = [] \<or> \<not> isAlphaNum (hd rest) \<Longrightarrow>
   expand_rec m (CHR ''$'' # name @ rest) = m name @ expand_rec m rest"
  by (simp add: getShellName_bare)

lemma expand_rec_lone_dollar:
  "c \<noteq> CHR ''{'' \<Longrightarrow> \<not> isShellSpecialVar c \<Longrightarrow> \<not> isAlphaNum c \<Longrightarrow>
   expand_rec m (CHR ''$'' # c # rest) = CHR ''$'' # expand_rec m (c # rest)"
  by (subst expand_rec.simps(2)) (simp add: getShellName_none del: expand_rec.simps)

lemma SplitN2_with_default:
  "sep \<notin> set name \<Longrightarrow> SplitN2 (name @ sep # d) sep = [name, d]"
  by (induction name) (auto simp: SplitN2_def)

lemma SplitN2_without:
  "sep \<notin> set name \<Longrightarrow> SplitN2 name sep = [name]"
  by (simp add: SplitN2_def)

lemma expandMapping_default:
  "name \<noteq> [] \<Longrightarrow> CHR '':'' \<notin> set name \<Longrightarrow>
   expandMapping env (name @ CHR '':'' # d) = resolve env name (Some d)"
  by (auto simp: expandMapping_def SplitN2_with_default Getenv_def resolve_def Let_def
      split: option.splits)

lemma expandMapping_plain:
  "name \<noteq> [] \<Longrightarrow> CHR '':'' \<notin> set name \<Longrightarrow> expandMapping env name = resolve env name None"
  by (auto simp: expandMapping_def SplitN2_without Getenv_def resolve_def Let_def
      split: option.splits)

lemma expandEnv_rec: "expandEnv env s = expand_rec (expandMapping env) s"
  by (simp add: expandEnv_def Expand_eq_expand_rec)

lemma bareName_facts:
  assumes "bareName name"
  shows "name \<noteq> []" "CHR '':'' \<notin> set name" "CHR ''}'' \<notin> set name"
    "list_all isAlphaNum name" "\<not> isShellSpecialVar (hd name)"
  using assms alnum_not_punct by (auto simp: bareName_def list_all_iff)

lemma endsName_iff: "endsName rest \<longleftrightarrow> rest = [] \<or> \<not> isAlphaNum (hd rest)"
  by (cases rest) (auto simp: endsName_def)

lemma expandEnv_braced_default:
  assumes "CHR ''$'' \<notin> set pre" "name \<noteq> []" "CHR '':'' \<notin> set name" "CHR ''}'' \<notin> set name"
    "CHR ''}'' \<notin> set d"
  shows "expandEnv env (pre @ ''${'' @ name @ '':'' @ d @ ''}'' @ rest)
       = pre @ resolve env name (Some d) @ expandEnv env rest"
proof -
  let ?tok = "name @ CHR '':'' # d"
  have tok: "?tok \<noteq> []" "CHR ''}'' \<notin> set ?tok"
    using assms by auto
  have "expand_rec (expandMapping env) (pre @ CHR ''$'' # CHR ''{'' # ?tok @ CHR ''}'' # rest)
      = pre @ expandMapping env ?tok @ expand_rec (expandMapping env) rest"
    using assms(1) expand_rec_braced [OF tok] by (simp add: expand_rec_prefix)
  then show ?thesis
    using assms by (simp add: expandEnv_rec expandMapping_default)
qed

lemma expandEnv_braced:
  assumes "CHR ''$'' \<notin> set pre" "name \<noteq> []" "CHR '':'' \<notin> set name" "CHR ''}'' \<notin> set name"
  shows "expandEnv env (pre @ ''${'' @ name @ ''}'' @ rest)
       = pre @ resolve env name None @ expandEnv env rest"
proof -
  have "expand_rec (expandMapping env) (pre @ CHR ''$'' # CHR ''{'' # name @ CHR ''}'' # rest)
      = pre @ expandMapping env name @ expand_rec (expandMapping env) rest"
    using assms(1) expand_rec_braced [OF assms(2) assms(4)] by (simp add: expand_rec_prefix)
  then show ?thesis
    using assms by (simp add: expandEnv_rec expandMapping_plain)
qed

lemma expandEnv_bare:
  assumes "CHR ''$'' \<notin> set pre" "bareName name" "endsName rest"
  shows "expandEnv env (pre @ ''$'' @ name @ rest)
       = pre @ resolve env name None @ expandEnv env rest"
proof -
  note b = bareName_facts [OF assms(2)]
  have e: "rest = [] \<or> \<not> isAlphaNum (hd rest)"
    using assms(3) by (simp add: endsName_iff)
  have "expand_rec (expandMapping env) (pre @ CHR ''$'' # name @ rest)
      = pre @ expandMapping env name @ expand_rec (expandMapping env) rest"
    using assms(1) expand_rec_bare [OF b(1) b(4) b(5) e] by (simp add: expand_rec_prefix)
  then show ?thesis
    using b by (simp add: expandEnv_rec expandMapping_plain)
qed

lemma expandEnv_special:
  assumes "CHR ''$'' \<notin> set pre" "isShellSpecialVar c"
  shows "expandEnv env (pre @ ''$'' @ c # rest)
       = pre @ resolve env [c] None @ expandEnv env rest"
proof -
  have c: "CHR '':'' \<notin> set [c]"
    using assms(2) by (auto simp: isShellSpecialVar_def)
  have "expand_rec (expandMapping env) (pre @ CHR ''$'' # c # rest)
      = pre @ expandMapping env [c] @ expand_rec (expandMapping env) rest"
    using assms(1) expand_rec_special [OF assms(2)] by (simp add: expand_rec_prefix)
  then show ?thesis
    using c by (simp add: expandEnv_rec expandMapping_plain)
qed

text \<open>
  C6: a recognized placeholder that follows plain text is resolved by the rule of the
  specification. The inner token is split at its first colon into the name and the
  default; the placeholder is replaced by the value of the variable when it is set and
  not empty, else by the default, verbatim, when one was given, else by the empty
  string; the text after the placeholder is expanded on its own. For a bare name, and
  for a special variable of one byte, \<^verbatim>\<open>$name\<close> gives what \<^verbatim>\<open>${name}\<close> gives.
\<close>

theorem expandEnv_resolves_placeholders:
  "(CHR ''$'' \<notin> set pre \<and> name \<noteq> '''' \<and> CHR '':'' \<notin> set name \<and> CHR ''}'' \<notin> set name
      \<and> CHR ''}'' \<notin> set d \<longrightarrow>
      expandEnv env (pre @ ''${'' @ name @ '':'' @ d @ ''}'' @ rest)
        = pre @ resolve env name (Some d) @ expandEnv env rest)
   \<and> (CHR ''$'' \<notin> set pre \<and> name \<noteq> '''' \<and> CHR '':'' \<notin> set name \<and> CHR ''}'' \<notin> set name \<longrightarrow>
      expandEnv env (pre @ ''${'' @ name @ ''}'' @ rest)
        = pre @ resolve env name None @ expandEnv env rest)
   \<and> (CHR ''$'' \<notin> set pre \<and> bareName name \<and> endsName rest \<longrightarrow>
      expandEnv env (pre @ ''$'' @ name @ rest)
        = expandEnv env (pre @ ''${'' @ name @ ''}'' @ rest))
   \<and> (CHR ''$'' \<notin> set pre \<and> isShellSpecialVar c \<longrightarrow>
      expandEnv env (pre @ ''$'' @ c # rest)
        = expandEnv env (pre @ ''${'' @ [c] @ ''}'' @ rest))"
proof (intro conjI impI)
  assume "CHR ''$'' \<notin> set pre \<and> name \<noteq> '''' \<and> CHR '':'' \<notin> set name \<and> CHR ''}'' \<notin> set name
      \<and> CHR ''}'' \<notin> set d"
  then show "expandEnv env (pre @ ''${'' @ name @ '':'' @ d @ ''}'' @ rest)
        = pre @ resolve env name (Some d) @ expandEnv env rest"
    using expandEnv_braced_default [of pre name d env rest] by blast
next
  assume "CHR ''$'' \<notin> set pre \<and> name \<noteq> '''' \<and> CHR '':'' \<notin> set name \<and> CHR ''}'' \<notin> set name"
  then show "expandEnv env (pre @ ''${'' @ name @ ''}'' @ rest)
        = pre @ resolve env name None @ expandEnv env rest"
    using expandEnv_braced [of pre name env rest] by blast
next
  assume a: "CHR ''$'' \<notin> set pre \<and> bareName name \<and> endsName rest"
  then have "expandEnv env (pre @ ''$'' @ name @ rest)
        = pre @ resolve env name None @ expandEnv env rest"
    using expandEnv_bare [of pre name rest env] by blast
  moreover have "expandEnv env (pre @ ''${'' @ name @ ''}'' @ rest)
        = pre @ resolve env name None @ expandEnv env rest"
    using a bareName_facts [of name] expandEnv_braced [of pre name env rest] by blast
  ultimately show "expandEnv env (pre @ ''$'' @ name @ rest)
        = expandEnv env (pre @ ''${'' @ name @ ''}'' @ rest)"
    by simp
next
  assume a: "CHR ''$'' \<notin> set pre \<and> isShellSpecialVar c"
  then have "expandEnv env (pre @ ''$'' @ c # rest)
        = pre @ resolve env [c] None @ expandEnv env rest"
    using expandEnv_special [of pre c env rest] by blast
  moreover have "CHR '':'' \<notin> set [c]" "CHR ''}'' \<notin> set [c]"
    using a by (auto simp: isShellSpecialVar_def)
  then have "expandEnv env (pre @ ''${'' @ [c] @ ''}'' @ rest)
        = pre @ resolve env [c] None @ expandEnv env rest"
    using a expandEnv_braced [of pre "[c]" env rest] by blast
  ultimately show "expandEnv env (pre @ ''$'' @ c # rest)
        = expandEnv env (pre @ ''${'' @ [c] @ ''}'' @ rest)"
    by simp
qed

theorem expandEnv_resolves_placeholders_witness:
  "expandEnv [''FOO'' \<mapsto> ''baz''] (''x: '' @ ''${'' @ ''FOO'' @ '':'' @ ''bar'' @ ''}'' @ '' y'')
     = ''x: '' @ ''baz'' @ '' y''
   \<and> expandEnv [''FOO'' \<mapsto> ''''] (''x: '' @ ''${'' @ ''FOO'' @ '':'' @ ''bar'' @ ''}'' @ '' y'')
     = ''x: '' @ ''bar'' @ '' y''
   \<and> expandEnv Map.empty (''x: '' @ ''${'' @ ''FOO'' @ ''}'' @ '' y'') = ''x: '' @ '''' @ '' y''
   \<and> expandEnv [''FOO'' \<mapsto> ''baz''] (''x: '' @ ''$'' @ ''FOO'' @ '' y'')
     = expandEnv [''FOO'' \<mapsto> ''baz''] (''x: '' @ ''${'' @ ''FOO'' @ ''}'' @ '' y'')
   \<and> expandEnv [''FOO'' \<mapsto> ''baz''] (''x: '' @ ''$'' @ CHR ''1'' # '' y'')
     = expandEnv [''FOO'' \<mapsto> ''baz''] (''x: '' @ ''${'' @ [CHR ''1''] @ ''}'' @ '' y'')"
proof -
  have pre: "CHR ''$'' \<notin> set ''x: ''" and name: "''FOO'' \<noteq> ''''" "CHR '':'' \<notin> set ''FOO''"
    "CHR ''}'' \<notin> set ''FOO''" and d: "CHR ''}'' \<notin> set ''bar''"
    by simp_all
  have bare: "bareName ''FOO''"
    by (simp add: bareName_def isAlphaNum_def isShellSpecialVar_def)
  have ends: "endsName '' y''"
    by (simp add: endsName_def isAlphaNum_def)
  have special: "isShellSpecialVar CHR ''1''"
    by (simp add: isShellSpecialVar_def)
  have rest: "expandEnv env '' y'' = '' y''" for env
    by (simp add: expandEnv_rec getShellName_def)
  have r1: "resolve [''FOO'' \<mapsto> ''baz''] ''FOO'' (Some ''bar'') = ''baz''"
    and r2: "resolve [''FOO'' \<mapsto> ''''] ''FOO'' (Some ''bar'') = ''bar''"
    and r3: "resolve Map.empty ''FOO'' None = ''''"
    by (simp_all add: resolve_def)
  show ?thesis
    using expandEnv_resolves_placeholders
        [of "''x: ''" "''FOO''" "''bar''" "[''FOO'' \<mapsto> ''baz'']" "'' y''" "CHR ''1''"]
      expandEnv_resolves_placeholders
        [of "''x: ''" "''FOO''" "''bar''" "[''FOO'' \<mapsto> '''']" "'' y''" "CHR ''1''"]
      expandEnv_resolves_placeholders
        [of "''x: ''" "''FOO''" "''bar''" "Map.empty" "'' y''" "CHR ''1''"]
      pre name d bare ends special
    by (simp only: rest r1 r2 r3 simp_thms)
qed

text \<open>
  C7, as stated, fails: malformed placeholder syntax is not left verbatim. An opening
  \<^verbatim>\<open>${\<close> with no closing brace, and the empty \<^verbatim>\<open>${}\<close>, are removed from
  the output.
\<close>

theorem expandEnv_malformed_counterexample:
  "expandEnv Map.empty ''pa${ss'' = ''pass'' \<and> expandEnv Map.empty ''pa${ss'' \<noteq> ''pa${ss''
   \<and> expandEnv Map.empty ''a${}b'' = ''ab'' \<and> expandEnv Map.empty ''a${}b'' \<noteq> ''a${}b''"
  by code_simp

text \<open>
  C7, amended: the expander is total and reads no index out of range (the width that
  \<^verbatim>\<open>getShellName\<close> reports lies within its argument, and the split of a key has
  a first element). Text without a dollar sign, a dollar sign at the end of the text,
  and a dollar sign before a byte that starts no name are passed through unchanged;
  the empty \<^verbatim>\<open>${}\<close> and a \<^verbatim>\<open>${\<close> with no closing brace after it are dropped
  from the output.
\<close>

theorem expandEnv_total_passes_or_drops:
  "(s \<noteq> '''' \<longrightarrow> snd (getShellName s) \<le> length s)
   \<and> 0 < length (SplitN2 key CHR '':'')
   \<and> (CHR ''$'' \<notin> set pre \<longrightarrow>
        expandEnv env pre = pre
      \<and> expandEnv env (pre @ ''$'') = pre @ ''$''
      \<and> expandEnv env (pre @ ''${}'' @ rest) = pre @ expandEnv env rest)
   \<and> (CHR ''$'' \<notin> set pre \<and> c \<noteq> CHR ''{'' \<and> \<not> isShellSpecialVar c \<and> \<not> isAlphaNum c \<longrightarrow>
        expandEnv env (pre @ ''$'' @ c # rest) = pre @ ''$'' @ expandEnv env (c # rest))
   \<and> (CHR ''$'' \<notin> set pre \<and> CHR ''}'' \<notin> set rest \<longrightarrow>
        expandEnv env (pre @ ''${'' @ rest) = pre @ expandEnv env rest)"
proof (intro conjI impI)
  assume "s \<noteq> ''''"
  then show "snd (getShellName s) \<le> length s"
    by (rule getShellName_width)
next
  show "0 < length (SplitN2 key CHR '':'')"
    using SplitN2_length [of key "CHR '':''"] by blast
next
  assume "CHR ''$'' \<notin> set pre"
  then show "expandEnv env pre = pre"
    using expand_rec_prefix [of pre "expandMapping env" "[]"] by (simp add: expandEnv_rec)
next
  assume "CHR ''$'' \<notin> set pre"
  then show "expandEnv env (pre @ ''$'') = pre @ ''$''"
    using expand_rec_prefix [of pre "expandMapping env" "''$''"] by (simp add: expandEnv_rec)
next
  assume "CHR ''$'' \<notin> set pre"
  then show "expandEnv env (pre @ ''${}'' @ rest) = pre @ expandEnv env rest"
    using expand_rec_empty_braces [of "expandMapping env" rest]
    by (simp add: expandEnv_rec expand_rec_prefix del: expand_rec.simps)
next
  assume "CHR ''$'' \<notin> set pre \<and> c \<noteq> CHR ''{'' \<and> \<not> isShellSpecialVar c \<and> \<not> isAlphaNum c"
  then show "expandEnv env (pre @ ''$'' @ c # rest) = pre @ ''$'' @ expandEnv env (c # rest)"
    using expand_rec_lone_dollar [of c "expandMapping env" rest]
    by (simp add: expandEnv_rec expand_rec_prefix del: expand_rec.simps)
next
  assume "CHR ''$'' \<notin> set pre \<and> CHR ''}'' \<notin> set rest"
  then show "expandEnv env (pre @ ''${'' @ rest) = pre @ expandEnv env rest"
    using expand_rec_open_brace [of rest "expandMapping env"]
    by (simp add: expandEnv_rec expand_rec_prefix del: expand_rec.simps)
qed

theorem expandEnv_total_passes_or_drops_witness:
  "snd (getShellName ''{ss'') \<le> length ''{ss''
   \<and> expandEnv Map.empty ''cost: 5'' = ''cost: 5''
   \<and> expandEnv Map.empty (''cost: 5'' @ ''$'') = ''cost: 5'' @ ''$''
   \<and> expandEnv Map.empty (''cost: 5'' @ ''${}'' @ ''ss'') = ''cost: 5'' @ expandEnv Map.empty ''ss''
   \<and> expandEnv Map.empty (''cost: 5'' @ ''$'' @ CHR '' '' # ''ss'')
       = ''cost: 5'' @ ''$'' @ expandEnv Map.empty (CHR '' '' # ''ss'')
   \<and> expandEnv Map.empty (''cost: 5'' @ ''${'' @ ''ss'') = ''cost: 5'' @ expandEnv Map.empty ''ss''"
proof -
  have h: "''{ss'' \<noteq> ''''" "CHR ''$'' \<notin> set ''cost: 5''" "CHR '' '' \<noteq> CHR ''{''"
    "\<not> isShellSpecialVar CHR '' ''" "\<not> isAlphaNum CHR '' ''" "CHR ''}'' \<notin> set ''ss''"
    by (simp_all add: isShellSpecialVar_def isAlphaNum_def)
  show ?thesis
    using expandEnv_total_passes_or_drops
      [of "''{ss''" "''k''" "''cost: 5''" Map.empty "''ss''" "CHR '' ''"] h
    by blast
qed

section \<open>Properties of the loader\<close>

lemma LoadConfig_read_failed:
  "ReadFile w filename = Inl err \<Longrightarrow>
   LoadConfig digest UnmarshalStrict filename expandENV cfg w
     = (Some (Wrap err ''Error reading config file''), cfg, w)"
  by (simp add: LoadConfig_def)

lemma LoadConfig_read_ok:
  assumes "ReadFile w filename = Inr buf"
  shows "LoadConfig digest UnmarshalStrict filename expandENV cfg w
     = ((case fst (UnmarshalStrict (if expandENV then expandEnv (environ w) buf else buf) cfg) of
           Some err \<Rightarrow> Some (Wrap err ''Error parsing config file'')
         | None \<Rightarrow> None),
        snd (UnmarshalStrict (if expandENV then expandEnv (environ w) buf else buf) cfg),
        w\<lparr>configHash := [Sprintf_x (digest buf) \<mapsto> 1]\<rparr>)"
  using assms
  by (auto simp: LoadConfig_def Let_def Reset_def WithLabelValues_Set_def
      split: prod.splits option.splits)

lemma LoadConfig_parse_failed:
  assumes "ReadFile w filename = Inr buf"
    and "fst (UnmarshalStrict (if expandENV then expandEnv (environ w) buf else buf) cfg) = Some e"
  shows "LoadConfig digest UnmarshalStrict filename expandENV cfg w
     = (Some (Wrap e ''Error parsing config file''),
        snd (UnmarshalStrict (if expandENV then expandEnv (environ w) buf else buf) cfg),
        w\<lparr>configHash := [Sprintf_x (digest buf) \<mapsto> 1]\<rparr>)"
  by (simp only: LoadConfig_read_ok [OF assms(1)] assms(2) option.case)

lemma LoadConfig_succeeded:
  assumes "ReadFile w filename = Inr buf"
    and "fst (UnmarshalStrict (if expandENV then expandEnv (environ w) buf else buf) cfg) = None"
  shows "LoadConfig digest UnmarshalStrict filename expandENV cfg w
     = (None,
        snd (UnmarshalStrict (if expandENV then expandEnv (environ w) buf else buf) cfg),
        w\<lparr>configHash := [Sprintf_x (digest buf) \<mapsto> 1]\<rparr>)"
  by (simp only: LoadConfig_read_ok [OF assms(1)] assms(2) option.case)

lemma exampleWorld_read:
  "ReadFile exampleWorld ''cfg.yaml'' = Inr ''greeting: ${NAME:world}''"
  "ReadFile exampleWorld ''missing.yaml''
     = Inl (Cause ''open missing.yaml: no such file or directory'')"
  by (simp_all add: ReadFile_def exampleWorld_def exampleFiles_def)

lemma exampleWorld_expand:
  "expandEnv (environ exampleWorld) ''greeting: ${NAME:world}'' = ''greeting: world''"
  by (simp add: exampleWorld_def) code_simp

text \<open>
  C2: the label that \<^verbatim>\<open>LoadConfig\<close> records is the hex form of the digest of the
  bytes as read, whether expansion is enabled or not: two loads of the same bytes, one
  with expansion and one without, from any two process states (any environments, any
  labels recorded before, any decoder results), leave the same single label.
\<close>

theorem fingerprint_expansion_independent:
  "ReadFile wa fa = Inr buf \<and> ReadFile wb fb = Inr buf \<longrightarrow>
     configHash (snd (snd (LoadConfig digest Ua fa True cfga wa))) = [Sprintf_x (digest buf) \<mapsto> 1]
   \<and> configHash (snd (snd (LoadConfig digest Ub fb False cfgb wb))) = [Sprintf_x (digest buf) \<mapsto> 1]
   \<and> configHash (snd (snd (LoadConfig digest Ua fa True cfga wa)))
       = configHash (snd (snd (LoadConfig digest Ub fb False cfgb wb)))"
  by (simp add: LoadConfig_read_ok)

theorem fingerprint_expansion_independent_witness:
  "ReadFile exampleWorld ''cfg.yaml'' = Inr ''greeting: ${NAME:world}''
   \<and> ReadFile (exampleWorld\<lparr>environ := [''NAME'' \<mapsto> ''you''], configHash := Map.empty\<rparr>) ''cfg.yaml''
       = Inr ''greeting: ${NAME:world}''
   \<and> configHash (snd (snd (LoadConfig exampleDigest exampleDecoder ''cfg.yaml'' True '''' exampleWorld)))
       = [Sprintf_x (exampleDigest ''greeting: ${NAME:world}'') \<mapsto> 1]
   \<and> configHash (snd (snd (LoadConfig exampleDigest exampleDecoder ''cfg.yaml'' True '''' exampleWorld)))
       = configHash (snd (snd (LoadConfig exampleDigest failingDecoder ''cfg.yaml'' False ''old''
           (exampleWorld\<lparr>environ := [''NAME'' \<mapsto> ''you''], configHash := Map.empty\<rparr>))))"
proof -
  have r1: "ReadFile exampleWorld ''cfg.yaml'' = Inr ''greeting: ${NAME:world}''"
    by (rule exampleWorld_read)
  have r2: "ReadFile (exampleWorld\<lparr>environ := [''NAME'' \<mapsto> ''you''], configHash := Map.empty\<rparr>)
      ''cfg.yaml'' = Inr ''greeting: ${NAME:world}''"
    by (simp add: ReadFile_def exampleWorld_def exampleFiles_def)
  show ?thesis
    using r1 r2
      fingerprint_expansion_independent [where wa = exampleWorld and fa = "''cfg.yaml''"
        and buf = "''greeting: ${NAME:world}''" and fb = "''cfg.yaml''"
        and wb = "exampleWorld\<lparr>environ := [''NAME'' \<mapsto> ''you''], configHash := Map.empty\<rparr>"
        and digest = exampleDigest and Ua = exampleDecoder and cfga = "''''"
        and Ub = failingDecoder and cfgb = "''old''"]
    by blast
qed

text \<open>
  C3, as stated, fails: a non-empty path does not make step 2 run. When the file at
  the path cannot be read, \<^verbatim>\<open>LoadConfig\<close> returns the read error before the digest
  is computed; the gauge is not reset and still holds the label of the earlier load.
\<close>

theorem fingerprint_not_always_published_counterexample:
  "''missing.yaml'' \<noteq> ''''
   \<and> fst (LoadConfig exampleDigest exampleDecoder ''missing.yaml'' False '''' exampleWorld)
       = Some (Wrap (Cause ''open missing.yaml: no such file or directory'')
                ''Error reading config file'')
   \<and> configHash (snd (snd (LoadConfig exampleDigest exampleDecoder ''missing.yaml'' False ''''
        exampleWorld))) = [''0f'' \<mapsto> 1]"
  by (simp add: LoadConfig_read_failed [OF exampleWorld_read(2)]) (simp add: exampleWorld_def)

text \<open>
  C3, amended: whenever the read succeeds, the fingerprint is published before the
  bytes are decoded, so that when the decoder fails, \<^verbatim>\<open>LoadConfig\<close> returns the
  parse error and the fingerprint of the file that was read is recorded all the same;
  when the read fails, \<^verbatim>\<open>LoadConfig\<close> returns the read error and leaves the process
  state, the gauge included, as it was.
\<close>

theorem fingerprint_after_failure:
  "(ReadFile w filename = Inr buf
      \<and> fst (UnmarshalStrict (if expandENV then expandEnv (environ w) buf else buf) cfg) = Some cause \<longrightarrow>
      fst (LoadConfig digest UnmarshalStrict filename expandENV cfg w)
        = Some (Wrap cause ''Error parsing config file'')
    \<and> configHash (snd (snd (LoadConfig digest UnmarshalStrict filename expandENV cfg w)))
        = [Sprintf_x (digest buf) \<mapsto> 1])
   \<and> (ReadFile w filename = Inl err \<longrightarrow>
      fst (LoadConfig digest UnmarshalStrict filename expandENV cfg w)
        = Some (Wrap err ''Error reading config file'')
    \<and> snd (snd (LoadConfig digest UnmarshalStrict filename expandENV cfg w)) = w)"
  by (simp add: LoadConfig_read_ok LoadConfig_read_failed)

theorem fingerprint_after_failure_witness:
  "ReadFile exampleWorld ''cfg.yaml'' = Inr ''greeting: ${NAME:world}''
   \<and> fst (failingDecoder (if True then expandEnv (environ exampleWorld) ''greeting: ${NAME:world}''
                          else ''greeting: ${NAME:world}'') ''old'')
       = Some (Cause ''yaml: unmarshal errors'')
   \<and> fst (LoadConfig exampleDigest failingDecoder ''cfg.yaml'' True ''old'' exampleWorld)
       = Some (Wrap (Cause ''yaml: unmarshal errors'') ''Error parsing config file'')
   \<and> configHash (snd (snd (LoadConfig exampleDigest failingDecoder ''cfg.yaml'' True ''old'' exampleWorld)))
       = [Sprintf_x (exampleDigest ''greeting: ${NAME:world}'') \<mapsto> 1]
   \<and> ReadFile exampleWorld ''missing.yaml''
       = Inl (Cause ''open missing.yaml: no such file or directory'')
   \<and> fst (LoadConfig exampleDigest failingDecoder ''missing.yaml'' True ''old'' exampleWorld)
       = Some (Wrap (Cause ''open missing.yaml: no such file or directory'')
                ''Error reading config file'')
   \<and> snd (snd (LoadConfig exampleDigest failingDecoder ''missing.yaml'' True ''old'' exampleWorld))
       = exampleWorld"
proof -
  have r1: "ReadFile exampleWorld ''cfg.yaml'' = Inr ''greeting: ${NAME:world}''"
    and r2: "ReadFile exampleWorld ''missing.yaml''
       = Inl (Cause ''open missing.yaml: no such file or directory'')"
    by (rule exampleWorld_read)+
  have u: "fst (failingDecoder (if True then expandEnv (environ exampleWorld) ''greeting: ${NAME:world}''
                          else ''greeting: ${NAME:world}'') ''old'')
       = Some (Cause ''yaml: unmarshal errors'')"
    by (simp add: failingDecoder_def)
  show ?thesis
    using r1 r2 u
      fingerprint_after_failure [where w = exampleWorld and filename = "''cfg.yaml''"
        and buf = "''greeting: ${NAME:world}''" and UnmarshalStrict = failingDecoder
        and expandENV = True and cfg = "''old''" and cause = "Cause ''yaml: unmarshal errors''"
        and digest = exampleDigest]
      fingerprint_after_failure [where w = exampleWorld and filename = "''missing.yaml''"
        and UnmarshalStrict = failingDecoder and expandENV = True and cfg = "''old''"
        and digest = exampleDigest
        and err = "Cause ''open missing.yaml: no such file or directory''"]
    by blast
qed

text \<open>
  C8: after a load that read its file, the gauge holds exactly one label, the hex
  fingerprint of that file, with the value 1; every label recorded before is gone.
\<close>

theorem fingerprint_single_label:
  "ReadFile w filename = Inr buf \<longrightarrow>
     dom (configHash (snd (snd (LoadConfig digest UnmarshalStrict filename expandENV cfg w))))
       = {Sprintf_x (digest buf)}
   \<and> configHash (snd (snd (LoadConfig digest UnmarshalStrict filename expandENV cfg w)))
       (Sprintf_x (digest buf)) = Some 1
   \<and> (old \<noteq> Sprintf_x (digest buf) \<longrightarrow>
       configHash (snd (snd (LoadConfig digest UnmarshalStrict filename expandENV cfg w))) old = None)"
  by (simp add: LoadConfig_read_ok)

theorem fingerprint_single_label_witness:
  "ReadFile exampleWorld ''cfg.yaml'' = Inr ''greeting: ${NAME:world}''
   \<and> configHash exampleWorld ''0f'' = Some 1
   \<and> ''0f'' \<noteq> Sprintf_x (exampleDigest ''greeting: ${NAME:world}'')
   \<and> dom (configHash (snd (snd (LoadConfig exampleDigest exampleDecoder ''cfg.yaml'' True '''' exampleWorld))))
       = {Sprintf_x (exampleDigest ''greeting: ${NAME:world}'')}
   \<and> configHash (snd (snd (LoadConfig exampleDigest exampleDecoder ''cfg.yaml'' True '''' exampleWorld)))
       (Sprintf_x (exampleDigest ''greeting: ${NAME:world}'')) = Some 1
   \<and> configHash (snd (snd (LoadConfig exampleDigest exampleDecoder ''cfg.yaml'' True '''' exampleWorld)))
       ''0f'' = None"
proof -
  have r1: "ReadFile exampleWorld ''cfg.yaml'' = Inr ''greeting: ${NAME:world}''"
    by (rule exampleWorld_read)
  have old: "configHash exampleWorld ''0f'' = Some 1"
    by (simp add: exampleWorld_def)
  have ne: "''0f'' \<noteq> Sprintf_x (exampleDigest ''greeting: ${NAME:world}'')"
    by code_simp
  show ?thesis
    using r1 old ne
      fingerprint_single_label [where w = exampleWorld and filename = "''cfg.yaml''"
        and buf = "''greeting: ${NAME:world}''" and digest = exampleDigest
        and UnmarshalStrict = exampleDecoder and expandENV = True and cfg = "''''"
        and old = "''0f''"]
    by blast
qed

text \<open>
  C10: \<^verbatim>\<open>LoadConfig\<close> does not check its path. Called with the empty path, the
  read fails; the result is the read error wrapped with the message of a read failure,
  the configuration is the one passed in, and the process state is unchanged, so no
  fingerprint is published.
\<close>

theorem LoadConfig_empty_path:
  "LoadConfig digest UnmarshalStrict '''' expandENV cfg w
     = (Some (Wrap (Cause ''open : no such file or directory'') ''Error reading config file''), cfg, w)"
  by (simp add: LoadConfig_def ReadFile_def)

section \<open>Strict deserialization\<close>

lemma hasUnknownField_unknownFields:
  "hasUnknownField sch doc \<Longrightarrow> unknownFields sch doc \<noteq> []"
proof (induction rule: hasUnknownField.induct)
  case (top k v kvs flds)
  then show ?case by force
next
  case (nested k v kvs flds sch)
  then show ?case by force
next
  case (item v items sch)
  then show ?case by force
qed

text \<open>
  C5: when the document that is decoded (the bytes read, expanded when expansion is
  enabled) has a field, at the top level or nested, that the schema does not know,
  \<^verbatim>\<open>LoadConfig\<close> returns an error of the parse-failure kind that wraps the cause.
  The strict decoder is the one modelled from the specification.
\<close>

theorem strict_unknown_field_rejected:
  "ReadFile w filename = Inr buf
   \<and> parseYAML (if expandENV then expandEnv (environ w) buf else buf) = Inr doc
   \<and> hasUnknownField sch doc \<longrightarrow>
     (\<exists>cause. fst (LoadConfig digest (UnmarshalStrict_spec parseYAML sch decode)
                     filename expandENV cfg w)
               = Some (Wrap cause ''Error parsing config file''))"
proof (intro impI; elim conjE)
  assume r: "ReadFile w filename = Inr buf"
    and p: "parseYAML (if expandENV then expandEnv (environ w) buf else buf) = Inr doc"
    and h: "hasUnknownField sch doc"
  from h have "unknownFields sch doc \<noteq> []"
    by (rule hasUnknownField_unknownFields)
  then obtain k ks where "unknownFields sch doc = k # ks"
    by (cases "unknownFields sch doc") auto
  with p have "\<exists>cause. fst (UnmarshalStrict_spec parseYAML sch decode
        (if expandENV then expandEnv (environ w) buf else buf) cfg) = Some cause"
    by (simp add: UnmarshalStrict_spec_def split: prod.splits)
  then show "\<exists>cause. fst (LoadConfig digest (UnmarshalStrict_spec parseYAML sch decode)
                     filename expandENV cfg w)
               = Some (Wrap cause ''Error parsing config file'')"
    by (auto simp: LoadConfig_read_ok [OF r])
qed

theorem strict_unknown_field_rejected_witness:
  "ReadFile exampleWorld ''cfg.yaml'' = Inr ''greeting: ${NAME:world}''
   \<and> exampleParse (if True then expandEnv (environ exampleWorld) ''greeting: ${NAME:world}''
                     else ''greeting: ${NAME:world}'')
       = Inr (Mapping [(''greeting'', Scalar ''world'')])
   \<and> hasUnknownField (Struct [(''target'', Leaf), (''server'', Struct [(''http_listen_port'', Leaf)])])
       (Mapping [(''greeting'', Scalar ''world'')])
   \<and> (\<exists>cause. fst (LoadConfig exampleDigest
         (UnmarshalStrict_spec exampleParse
            (Struct [(''target'', Leaf), (''server'', Struct [(''http_listen_port'', Leaf)])])
            (\<lambda>doc cfg. (None, cfg)))
         ''cfg.yaml'' True ''old'' exampleWorld)
       = Some (Wrap cause ''Error parsing config file''))"
proof -
  have r1: "ReadFile exampleWorld ''cfg.yaml'' = Inr ''greeting: ${NAME:world}''"
    by (rule exampleWorld_read)
  have p: "exampleParse (if True then expandEnv (environ exampleWorld) ''greeting: ${NAME:world}''
                     else ''greeting: ${NAME:world}'')
       = Inr (Mapping [(''greeting'', Scalar ''world'')])"
    by (simp add: exampleWorld_expand exampleParse_def)
  have h: "hasUnknownField (Struct [(''target'', Leaf), (''server'', Struct [(''http_listen_port'', Leaf)])])
       (Mapping [(''greeting'', Scalar ''world'')])"
    by (rule hasUnknownField.top [where k = "''greeting''" and v = "Scalar ''world''"]) simp_all
  show ?thesis
    using r1 p h
      strict_unknown_field_rejected [where w = exampleWorld and filename = "''cfg.yaml''"
        and buf = "''greeting: ${NAME:world}''" and parseYAML = exampleParse and expandENV = True
        and doc = "Mapping [(''greeting'', Scalar ''world'')]"
        and sch = "Struct [(''target'', Leaf), (''server'', Struct [(''http_listen_port'', Leaf)])]"
        and digest = exampleDigest and decode = "\<lambda>doc cfg. (None, cfg)" and cfg = "''old''"]
    by blast
qed

section \<open>Properties of the orchestrator\<close>

lemma registerIgnored_no_exit:
  "fst (registerIgnored w) \<noteq> Exited n \<and> stderr (snd (registerIgnored w)) = stderr w"
  by (simp add: registerIgnored_def split: option.splits)

lemma registerIgnored_fresh:
  assumes "configFileOption \<notin> set (CommandLine w)" "configExpandENV \<notin> set (CommandLine w)"
  shows "fst (registerIgnored w) = Returned"
proof -
  have "Var (CommandLine w) configFileOption = Some (CommandLine w @ [configFileOption])"
    using assms(1) by (simp add: Var_def) (simp add: configFileOption_def)
  moreover have "Var (CommandLine w @ [configFileOption]) configExpandENV
      = Some (CommandLine w @ [configFileOption, configExpandENV])"
    using assms(2) by (simp add: Var_def) (simp add: configFileOption_def configExpandENV_def)
  ultimately show ?thesis
    by (simp add: registerIgnored_def)
qed

lemma ReadFile_CommandLine: "ReadFile (w\<lparr>CommandLine := names\<rparr>) path = ReadFile w path"
  by (simp add: ReadFile_def)

lemma main_unfold:
  assumes "RegisterFlags zeroCfg (CommandLine w) = Some (cfg, names)"
    and "parseConfigFileParameter args = (path, x)"
  shows "main digest UnmarshalStrict RegisterFlags zeroCfg args w
     = (if path \<noteq> [] then
          (case LoadConfig digest UnmarshalStrict path x cfg (w\<lparr>CommandLine := names\<rparr>) of
             (Some err, cfg', w2) \<Rightarrow>
               (if testMode w2 then Returned else Exited 1,
                w2\<lparr>stderr := stderr w2 @ ''error loading config from '' @ path @ '': ''
                              @ Error err @ [CHR 0x0A]\<rparr>)
           | (None, cfg', w2) \<Rightarrow> registerIgnored w2)
        else registerIgnored (w\<lparr>CommandLine := names\<rparr>))"
  using assms by (simp add: main_def Let_def split: prod.splits option.splits)

lemma main_read_failure:
  assumes "RegisterFlags zeroCfg (CommandLine w) = Some (cfg, names)"
    and "parseConfigFileParameter args = (path, x)" and "path \<noteq> []"
    and "ReadFile w path = Inl e"
  shows "main digest UnmarshalStrict RegisterFlags zeroCfg args w
     = (if testMode w then Returned else Exited 1,
        w\<lparr>CommandLine := names,
          stderr := stderr w @ ''error loading config from '' @ path
                    @ '': '' @ ''Error reading config file'' @ '': '' @ Error e @ [CHR 0x0A]\<rparr>)"
proof -
  have "ReadFile (w\<lparr>CommandLine := names\<rparr>) path = Inl e"
    using assms(4) by (simp add: ReadFile_CommandLine)
  then have "LoadConfig digest UnmarshalStrict path x cfg (w\<lparr>CommandLine := names\<rparr>)
      = (Some (Wrap e ''Error reading config file''), cfg, w\<lparr>CommandLine := names\<rparr>)"
    by (rule LoadConfig_read_failed)
  then show ?thesis
    using assms(3) by (simp add: main_unfold [where RegisterFlags = RegisterFlags and zeroCfg = zeroCfg and w = w and digest = digest and UnmarshalStrict = UnmarshalStrict,
        OF assms(1,2)])
qed

lemma main_parse_failure:
  assumes "RegisterFlags zeroCfg (CommandLine w) = Some (cfg, names)"
    and "parseConfigFileParameter args = (path, x)" and "path \<noteq> []"
    and "ReadFile w path = Inr buf"
    and "fst (UnmarshalStrict (if x then expandEnv (environ w) buf else buf) cfg) = Some e"
  shows "main digest UnmarshalStrict RegisterFlags zeroCfg args w
     = (if testMode w then Returned else Exited 1,
        w\<lparr>CommandLine := names, configHash := [Sprintf_x (digest buf) \<mapsto> 1],
          stderr := stderr w @ ''error loading config from '' @ path
                    @ '': '' @ ''Error parsing config file'' @ '': '' @ Error e @ [CHR 0x0A]\<rparr>)"
proof -
  let ?w = "w\<lparr>CommandLine := names\<rparr>"
  have r: "ReadFile ?w path = Inr buf"
    using assms(4) by (simp add: ReadFile_CommandLine)
  have u: "fst (UnmarshalStrict (if x then expandEnv (environ ?w) buf else buf) cfg) = Some e"
    using assms(5) by (cases x) simp_all
  show ?thesis
    using assms(3)
    by (simp add: main_unfold [where RegisterFlags = RegisterFlags and zeroCfg = zeroCfg and w = w and digest = digest and UnmarshalStrict = UnmarshalStrict,
        OF assms(1,2)] LoadConfig_parse_failed [where UnmarshalStrict = UnmarshalStrict and digest = digest, OF r u])
qed

lemma main_no_failure:
  assumes "RegisterFlags zeroCfg (CommandLine w) = Some (cfg, names)"
    and "parseConfigFileParameter args = (path, x)"
    and "path = [] \<or> (ReadFile w path = Inr buf
          \<and> fst (UnmarshalStrict (if x then expandEnv (environ w) buf else buf) cfg) = None)"
  shows "\<exists>g. main digest UnmarshalStrict RegisterFlags zeroCfg args w
     = registerIgnored (w\<lparr>CommandLine := names, configHash := g\<rparr>)"
proof (cases "path = []")
  case True
  have "w\<lparr>CommandLine := names\<rparr> = w\<lparr>CommandLine := names, configHash := configHash w\<rparr>"
    by simp
  then have "main digest UnmarshalStrict RegisterFlags zeroCfg args w
      = registerIgnored (w\<lparr>CommandLine := names, configHash := configHash w\<rparr>)"
    using True by (simp add: main_unfold [where RegisterFlags = RegisterFlags and zeroCfg = zeroCfg and w = w and digest = digest and UnmarshalStrict = UnmarshalStrict,
        OF assms(1,2)])
  then show ?thesis by blast
next
  case False
  let ?w = "w\<lparr>CommandLine := names\<rparr>"
  have r: "ReadFile ?w path = Inr buf"
    using assms(3) False by (simp add: ReadFile_CommandLine)
  have u: "fst (UnmarshalStrict (if x then expandEnv (environ ?w) buf else buf) cfg) = None"
    using assms(3) False by (cases x) simp_all
  have "main digest UnmarshalStrict RegisterFlags zeroCfg args w
      = registerIgnored (w\<lparr>CommandLine := names, configHash := [Sprintf_x (digest buf) \<mapsto> 1]\<rparr>)"
    using False by (simp add: main_unfold [where RegisterFlags = RegisterFlags and zeroCfg = zeroCfg and w = w and digest = digest and UnmarshalStrict = UnmarshalStrict,
        OF assms(1,2)] LoadConfig_succeeded [where UnmarshalStrict = UnmarshalStrict and digest = digest, OF r u])
  then show ?thesis by blast
qed

lemma exampleWorld_fields:
  "testMode exampleWorld = False" "stderr exampleWorld = ''''" "CommandLine exampleWorld = []"
  "environ exampleWorld = Map.empty"
  by (simp_all add: exampleWorld_def)

lemma example_locate:
  "parseConfigFileParameter [''-target=all'', ''-config.file=missing.yaml'']
     = (''missing.yaml'', False)"
  "parseConfigFileParameter [''-config.file=cfg.yaml'', ''-config.expand-env''] = (''cfg.yaml'', True)"
  "parseConfigFileParameter [''-target=all''] = ('''', False)"
  by code_simp+

text \<open>
  C4: let the registration of the configuration's flags return, and let the locator
  find the path and the expansion flag. When the path is not empty and the load fails,
  in the read or in the decoding, \<^verbatim>\<open>main\<close> appends to the standard error stream the
  line with the path, the kind of failure and the text of the cause, and then exits
  with status 1, unless \<^verbatim>\<open>testMode\<close> is set, in which case it returns. When the
  path is empty or the load succeeds, \<^verbatim>\<open>main\<close> writes nothing to the stream and
  does not exit; it returns once the two options are registered as ignored, which
  succeeds when their names are not registered yet.
\<close>

theorem main_exit_policy:
  "RegisterFlags zeroCfg (CommandLine w) = Some (cfg, names)
   \<and> parseConfigFileParameter args = (path, x) \<longrightarrow>
     (path \<noteq> '''' \<and> ReadFile w path = Inl e \<longrightarrow>
        fst (main digest UnmarshalStrict RegisterFlags zeroCfg args w)
          = (if testMode w then Returned else Exited 1)
      \<and> stderr (snd (main digest UnmarshalStrict RegisterFlags zeroCfg args w))
          = stderr w @ ''error loading config from '' @ path
            @ '': '' @ ''Error reading config file'' @ '': '' @ Error e @ [CHR 0x0A])
   \<and> (path \<noteq> '''' \<and> ReadFile w path = Inr buf
        \<and> fst (UnmarshalStrict (if x then expandEnv (environ w) buf else buf) cfg) = Some e \<longrightarrow>
        fst (main digest UnmarshalStrict RegisterFlags zeroCfg args w)
          = (if testMode w then Returned else Exited 1)
      \<and> stderr (snd (main digest UnmarshalStrict RegisterFlags zeroCfg args w))
          = stderr w @ ''error loading config from '' @ path
            @ '': '' @ ''Error parsing config file'' @ '': '' @ Error e @ [CHR 0x0A])
   \<and> (path = '''' \<or> (ReadFile w path = Inr buf
          \<and> fst (UnmarshalStrict (if x then expandEnv (environ w) buf else buf) cfg) = None) \<longrightarrow>
        fst (main digest UnmarshalStrict RegisterFlags zeroCfg args w) \<noteq> Exited n
      \<and> stderr (snd (main digest UnmarshalStrict RegisterFlags zeroCfg args w)) = stderr w
      \<and> (configFileOption \<notin> set names \<and> configExpandENV \<notin> set names \<longrightarrow>
          fst (main digest UnmarshalStrict RegisterFlags zeroCfg args w) = Returned))"
proof (intro impI conjI; elim conjE)
  assume a: "RegisterFlags zeroCfg (CommandLine w) = Some (cfg, names)"
    "parseConfigFileParameter args = (path, x)"
  {
    assume b: "path \<noteq> ''''" "ReadFile w path = Inl e"
    note m = main_read_failure [where RegisterFlags = RegisterFlags and zeroCfg = zeroCfg and w = w and digest = digest and UnmarshalStrict = UnmarshalStrict,
        OF a(1) a(2) b(1) b(2)]
    show "fst (main digest UnmarshalStrict RegisterFlags zeroCfg args w)
          = (if testMode w then Returned else Exited 1)"
      by (simp add: m)
    show "stderr (snd (main digest UnmarshalStrict RegisterFlags zeroCfg args w))
          = stderr w @ ''error loading config from '' @ path
            @ '': '' @ ''Error reading config file'' @ '': '' @ Error e @ [CHR 0x0A]"
      by (simp add: m)
  }
  {
    assume b: "path \<noteq> ''''" "ReadFile w path = Inr buf"
      "fst (UnmarshalStrict (if x then expandEnv (environ w) buf else buf) cfg) = Some e"
    note m = main_parse_failure [where RegisterFlags = RegisterFlags and zeroCfg = zeroCfg and w = w and digest = digest and UnmarshalStrict = UnmarshalStrict,
        OF a(1) a(2) b(1) b(2) b(3)]
    show "fst (main digest UnmarshalStrict RegisterFlags zeroCfg args w)
          = (if testMode w then Returned else Exited 1)"
      by (simp add: m)
    show "stderr (snd (main digest UnmarshalStrict RegisterFlags zeroCfg args w))
          = stderr w @ ''error loading config from '' @ path
            @ '': '' @ ''Error parsing config file'' @ '': '' @ Error e @ [CHR 0x0A]"
      by (simp add: m)
  }
  {
    assume ok: "path = '''' \<or> (ReadFile w path = Inr buf
          \<and> fst (UnmarshalStrict (if x then expandEnv (environ w) buf else buf) cfg) = None)"
    from main_no_failure [where RegisterFlags = RegisterFlags and zeroCfg = zeroCfg and w = w and digest = digest and UnmarshalStrict = UnmarshalStrict,
        OF a(1) a(2) ok] obtain g where
      m: "main digest UnmarshalStrict RegisterFlags zeroCfg args w
            = registerIgnored (w\<lparr>CommandLine := names, configHash := g\<rparr>)"
      by blast
    show "fst (main digest UnmarshalStrict RegisterFlags zeroCfg args w) \<noteq> Exited n"
      by (simp add: m registerIgnored_no_exit)
    show "stderr (snd (main digest UnmarshalStrict RegisterFlags zeroCfg args w)) = stderr w"
      by (simp add: m registerIgnored_no_exit)
    {
      assume "configFileOption \<notin> set names" "configExpandENV \<notin> set names"
      then show "fst (main digest UnmarshalStrict RegisterFlags zeroCfg args w) = Returned"
        by (simp add: m registerIgnored_fresh)
    }
  }
qed

theorem main_exit_policy_witness:
  "fst (main exampleDigest exampleDecoder exampleRegisterFlags ''''
          [''-target=all'', ''-config.file=missing.yaml''] exampleWorld) = Exited 1
   \<and> stderr (snd (main exampleDigest exampleDecoder exampleRegisterFlags ''''
          [''-target=all'', ''-config.file=missing.yaml''] exampleWorld))
       = ''error loading config from missing.yaml: Error reading config file: ''
         @ ''open missing.yaml: no such file or directory'' @ [CHR 0x0A]
   \<and> fst (main exampleDigest exampleDecoder exampleRegisterFlags ''''
          [''-target=all'', ''-config.file=missing.yaml''] (exampleWorld\<lparr>testMode := True\<rparr>))
       = Returned
   \<and> fst (main exampleDigest failingDecoder exampleRegisterFlags ''''
          [''-config.file=cfg.yaml'', ''-config.expand-env''] exampleWorld) = Exited 1
   \<and> stderr (snd (main exampleDigest failingDecoder exampleRegisterFlags ''''
          [''-config.file=cfg.yaml'', ''-config.expand-env''] exampleWorld))
       = ''error loading config from cfg.yaml: Error parsing config file: ''
         @ ''yaml: unmarshal errors'' @ [CHR 0x0A]
   \<and> fst (main exampleDigest exampleDecoder exampleRegisterFlags ''''
          [''-config.file=cfg.yaml'', ''-config.expand-env''] exampleWorld) = Returned
   \<and> fst (main exampleDigest exampleDecoder exampleRegisterFlags '''' [''-target=all'']
          exampleWorld) = Returned"
proof -
  let ?names = "[''target'', ''server.http-listen-port'']"
  let ?missing = "Cause ''open missing.yaml: no such file or directory''"
  let ?text = "''greeting: ${NAME:world}''"
  have reg: "exampleRegisterFlags '''' (CommandLine exampleWorld) = Some ('''', ?names)"
    "exampleRegisterFlags '''' (CommandLine (exampleWorld\<lparr>testMode := True\<rparr>)) = Some ('''', ?names)"
    by (simp_all add: exampleRegisterFlags_def exampleWorld_def)
  have fresh: "configFileOption \<notin> set ?names" "configExpandENV \<notin> set ?names"
    by (simp_all add: configFileOption_def configExpandENV_def)
  have rd: "ReadFile exampleWorld ''missing.yaml'' = Inl ?missing"
    "ReadFile (exampleWorld\<lparr>testMode := True\<rparr>) ''missing.yaml'' = Inl ?missing"
    "ReadFile exampleWorld ''cfg.yaml'' = Inr ?text"
    by (simp_all add: ReadFile_def exampleWorld_def exampleFiles_def)
  have bad: "fst (failingDecoder (if True then expandEnv (environ exampleWorld) ?text else ?text) '''')
      = Some (Cause ''yaml: unmarshal errors'')"
    by (simp add: failingDecoder_def)
  have good: "fst (exampleDecoder (if True then expandEnv (environ exampleWorld) ?text else ?text) '''')
      = None"
    by (simp add: exampleDecoder_def)
  have ne: "''missing.yaml'' \<noteq> ''''" "''cfg.yaml'' \<noteq> ''''"
    by simp_all
  have a: "fst (main exampleDigest exampleDecoder exampleRegisterFlags ''''
          [''-target=all'', ''-config.file=missing.yaml''] exampleWorld) = Exited 1
      \<and> stderr (snd (main exampleDigest exampleDecoder exampleRegisterFlags ''''
          [''-target=all'', ''-config.file=missing.yaml''] exampleWorld))
       = ''error loading config from missing.yaml: Error reading config file: ''
         @ ''open missing.yaml: no such file or directory'' @ [CHR 0x0A]"
    using main_exit_policy [where RegisterFlags = exampleRegisterFlags and zeroCfg = "''''"
        and w = exampleWorld and cfg = "''''" and names = ?names
        and args = "[''-target=all'', ''-config.file=missing.yaml'']"
        and path = "''missing.yaml''" and x = False and e = ?missing
        and digest = exampleDigest and UnmarshalStrict = exampleDecoder]
      reg(1) example_locate(1) rd(1) ne(1)
    by (simp add: exampleWorld_fields)
  have b: "fst (main exampleDigest exampleDecoder exampleRegisterFlags ''''
          [''-target=all'', ''-config.file=missing.yaml''] (exampleWorld\<lparr>testMode := True\<rparr>))
       = Returned"
    using main_exit_policy [where RegisterFlags = exampleRegisterFlags and zeroCfg = "''''"
        and w = "exampleWorld\<lparr>testMode := True\<rparr>" and cfg = "''''" and names = ?names
        and args = "[''-target=all'', ''-config.file=missing.yaml'']"
        and path = "''missing.yaml''" and x = False and e = ?missing
        and digest = exampleDigest and UnmarshalStrict = exampleDecoder]
      reg(2) example_locate(1) rd(2) ne(1)
    by simp
  have c: "fst (main exampleDigest failingDecoder exampleRegisterFlags ''''
          [''-config.file=cfg.yaml'', ''-config.expand-env''] exampleWorld) = Exited 1
      \<and> stderr (snd (main exampleDigest failingDecoder exampleRegisterFlags ''''
          [''-config.file=cfg.yaml'', ''-config.expand-env''] exampleWorld))
       = ''error loading config from cfg.yaml: Error parsing config file: ''
         @ ''yaml: unmarshal errors'' @ [CHR 0x0A]"
    using main_exit_policy [where RegisterFlags = exampleRegisterFlags and zeroCfg = "''''"
        and w = exampleWorld and cfg = "''''" and names = ?names
        and args = "[''-config.file=cfg.yaml'', ''-config.expand-env'']"
        and path = "''cfg.yaml''" and x = True and e = "Cause ''yaml: unmarshal errors''"
        and buf = ?text and digest = exampleDigest and UnmarshalStrict = failingDecoder]
      reg(1) example_locate(2) rd(3) ne(2) bad
    by (simp add: exampleWorld_fields)
  have d: "fst (main exampleDigest exampleDecoder exampleRegisterFlags ''''
          [''-config.file=cfg.yaml'', ''-config.expand-env''] exampleWorld) = Returned"
    using main_exit_policy [where RegisterFlags = exampleRegisterFlags and zeroCfg = "''''"
        and w = exampleWorld and cfg = "''''" and names = ?names
        and args = "[''-config.file=cfg.yaml'', ''-config.expand-env'']"
        and path = "''cfg.yaml''" and x = True
        and buf = ?text and digest = exampleDigest and UnmarshalStrict = exampleDecoder]
      reg(1) example_locate(2) rd(3) good fresh
    by blast
  have e: "fst (main exampleDigest exampleDecoder exampleRegisterFlags '''' [''-target=all'']
          exampleWorld) = Returned"
    using main_exit_policy [where RegisterFlags = exampleRegisterFlags and zeroCfg = "''''"
        and w = exampleWorld and cfg = "''''" and names = ?names
        and args = "[''-target=all'']" and path = "''''" and x = False
        and digest = exampleDigest and UnmarshalStrict = exampleDecoder]
      reg(1) example_locate(3) fresh
    by blast
  from a b c d e show ?thesis
    by blast
qed

end
